theory Spec2Isabelle
  imports Complex_Main "HOL-Library.AList"
begin

section \<open>Guardian-AI: the threat-detection loop and its workers\<close>

text \<open>
  The development embeds \<^verbatim>\<open>security_threat_detection.py\<close> (the YOLO detection loop),
  the event section of \<^verbatim>\<open>security_threat_detection1.py\<close> (the MediaPipe variant),
  \<^verbatim>\<open>security_db_writer.py\<close> and \<^verbatim>\<open>security_worker.py\<close>.

  Conventions. Python floats (clock readings, keypoint coordinates and confidences) are
  read as real numbers. A Python exception is a value of \<open>py_error\<close>. A queue is the
  list of everything that was put on it so far, oldest first.
\<close>

subsection \<open>Python errors and indexing\<close>

datatype py_error = IndexError | TypeError

definition py_index :: "'a list \<Rightarrow> nat \<Rightarrow> py_error + 'a" where
  "py_index xs i = (if i < length xs then Inr (xs ! i) else Inl IndexError)"

subsection \<open>The ground-pose heuristic (\<^verbatim>\<open>is_person_on_ground_yolo\<close>)\<close>

text \<open>One row of the keypoint tensor of a person: x, y, confidence.\<close>

type_synonym keypoint = "real \<times> real \<times> real"

definition kp_y :: "keypoint \<Rightarrow> real" where
  "kp_y k = fst (snd k)"

definition kp_conf :: "keypoint \<Rightarrow> real" where
  "kp_conf k = snd (snd k)"

definition LEFT_SHOULDER :: nat where "LEFT_SHOULDER = 5"
definition RIGHT_SHOULDER :: nat where "RIGHT_SHOULDER = 6"
definition LEFT_HIP :: nat where "LEFT_HIP = 11"
definition RIGHT_HIP :: nat where "RIGHT_HIP = 12"

text \<open>
  The four reads come first and raise \<open>IndexError\<close> on a tensor with too few rows; then
  the four conditional appends to \<^verbatim>\<open>valid_points_y\<close>, the length test and the comparison
  of the average with the pixel threshold.
\<close>

definition is_person_on_ground_yolo :: "keypoint list \<Rightarrow> real \<Rightarrow> real \<Rightarrow> py_error + bool" where
  "is_person_on_ground_yolo keypoints frame_height ground_threshold_percent =
     (case py_index keypoints LEFT_SHOULDER of Inl e \<Rightarrow> Inl e | Inr ls \<Rightarrow>
      case py_index keypoints RIGHT_SHOULDER of Inl e \<Rightarrow> Inl e | Inr rs \<Rightarrow>
      case py_index keypoints LEFT_HIP of Inl e \<Rightarrow> Inl e | Inr lh \<Rightarrow>
      case py_index keypoints RIGHT_HIP of Inl e \<Rightarrow> Inl e | Inr rh \<Rightarrow>
        (let v0 = [];
             v1 = (if kp_conf ls > 0.5 then v0 @ [kp_y ls] else v0);
             v2 = (if kp_conf rs > 0.5 then v1 @ [kp_y rs] else v1);
             v3 = (if kp_conf lh > 0.5 then v2 @ [kp_y lh] else v2);
             valid_points_y = (if kp_conf rh > 0.5 then v3 @ [kp_y rh] else v3)
         in if length valid_points_y < 2 then Inr False
            else
              (let avg_torso_y = sum_list valid_points_y / real (length valid_points_y);
                   ground_threshold_pixels = frame_height * ground_threshold_percent
               in Inr (avg_torso_y > ground_threshold_pixels))))"

text \<open>The default of the third parameter, used by the detection loop.\<close>

definition ground_threshold_percent_default :: real where
  "ground_threshold_percent_default = 0.55"


subsection \<open>Subjects, the event and the messages (\<^verbatim>\<open>threat_detection_process\<close>)\<close>

datatype subject_status = Normal | Pending | Suspicious

text \<open>The value of \<^verbatim>\<open>tracked_subjects[yolo_track_id]\<close>.\<close>

record subject =
  tracking_id :: string
  status :: subject_status
  pose_start_time :: "real option"
  is_confirmed_suspicious :: bool

text \<open>
  \<^verbatim>\<open>ObjectId()\<close> of bson: the n-th identifier made by the process. Two calls never
  return the same identifier.
\<close>

datatype object_id = ObjectId nat

datatype event_status = Inactive | Active

text \<open>The dictionary \<^verbatim>\<open>active_event\<close>; its key \<^verbatim>\<open>'id'\<close> is \<open>event_id\<close> here.\<close>

record active_event =
  event_id :: "object_id option"
  event_status :: event_status
  last_vlm_trigger_time :: real
  participants :: "string set"

text \<open>
  The dictionaries put on \<^verbatim>\<open>db_writer_queue\<close>, one constructor per \<^verbatim>\<open>'action'\<close>,
  with the payload fields in the order of the source.
\<close>

datatype db_command =
    create_new_subject string "real list" string
  | update_subject_status string subject_status
  | create_event "object_id option" string string
  | end_event "object_id option"
  | add_participant_to_event "object_id option" string
  | add_vlm_log "object_id option" string string "real list" "string list"

text \<open>The payload of an \<^verbatim>\<open>'analyze_threat'\<close> task on \<^verbatim>\<open>vlm_task_queue\<close>.\<close>

record vlm_payload =
  task_event_id :: "object_id option"
  subjects :: "string list"
  base64_frame :: string

type_synonym image = "nat list"

text \<open>
  What the loop gets from outside and the model cannot compute: the n-th result of
  \<^verbatim>\<open>uuid.uuid4().hex\<close>, the order in which Python iterates over a set of strings, and
  the JPEG and base64 encoding of a frame.
\<close>

record env =
  uuid4_hex :: "nat \<Rightarrow> string"
  set_iter :: "string set \<Rightarrow> string list"
  jpg_base64 :: "image \<Rightarrow> string"

text \<open>
  One item of \<^verbatim>\<open>results_generator\<close> together with the clock reading taken at the top
  of the iteration. \<open>boxes_id\<close> is \<^verbatim>\<open>results.boxes.id\<close> (\<open>None\<close>: nobody tracked),
  \<open>keypoints\<close> is \<^verbatim>\<open>results.keypoints\<close>, one tensor per detected person.
\<close>

record frame_input =
  current_time :: real
  orig_img :: image
  frame_height :: nat
  boxes_id :: "int list option"
  keypoints :: "keypoint list list"

text \<open>
  The local state of the process. \<^verbatim>\<open>tracked_subjects\<close> is a Python dictionary, which
  keeps insertion order: an association list with one entry per key.
\<close>

record det_state =
  tracked_subjects :: "(int \<times> subject) list"
  active_event :: active_event
  db_writer_queue :: "db_command list"
  vlm_task_queue :: "vlm_payload list"
  uuid_calls :: nat
  object_ids :: nat

definition POSE_CONFIRMATION_SEC :: real where "POSE_CONFIRMATION_SEC = 1.0"
definition VLM_INTERVAL_SEC :: real where "VLM_INTERVAL_SEC = 5.0"

definition initial_state :: det_state where
  "initial_state =
     \<lparr>tracked_subjects = [],
      active_event = \<lparr>event_id = None, event_status = Inactive,
                      last_vlm_trigger_time = 0, participants = {}\<rparr>,
      db_writer_queue = [], vlm_task_queue = [], uuid_calls = 0, object_ids = 0\<rparr>"

subsection \<open>Step 2 of the loop: the status of one subject\<close>

definition new_subject :: "string \<Rightarrow> subject" where
  "new_subject persistent_id =
     \<lparr>tracking_id = persistent_id, status = Normal, pose_start_time = None,
      is_confirmed_suspicious = False\<rparr>"

text \<open>
  The \<^verbatim>\<open>if is_person_on_ground_yolo(...)\<close> statement of the loop body, for the subject
  found in the dictionary: the new subject and the commands it puts on the queue.
  Subtracting \<open>None\<close> from a float raises \<open>TypeError\<close>.
\<close>

definition update_subject :: "real \<Rightarrow> bool \<Rightarrow> subject \<Rightarrow> py_error + (subject \<times> db_command list)" where
  "update_subject now on_ground subject =
     (if on_ground then
        (if status subject = Normal then
           Inr (subject\<lparr>status := Pending, pose_start_time := Some now\<rparr>, [])
         else if status subject = Pending then
           (case pose_start_time subject of
              None \<Rightarrow> Inl TypeError
            | Some t0 \<Rightarrow>
                if now - t0 \<ge> POSE_CONFIRMATION_SEC then
                  (if \<not> is_confirmed_suspicious subject then
                     Inr (subject\<lparr>status := Suspicious, is_confirmed_suspicious := True\<rparr>,
                          [update_subject_status (tracking_id subject) Suspicious])
                   else Inr (subject, []))
                else Inr (subject, []))
         else Inr (subject, []))
      else
        (if status subject \<noteq> Normal then
           Inr (subject\<lparr>status := Normal, pose_start_time := None,
                        is_confirmed_suspicious := False\<rparr>,
                [update_subject_status (tracking_id subject) Normal])
         else Inr (subject, [])))"

text \<open>
  One subject over the frames in which it is observed: for each frame, whether the
  heuristic says "on ground" and the clock reading.
\<close>

fun subject_run :: "subject \<Rightarrow> (bool \<times> real) list \<Rightarrow> py_error + subject" where
  "subject_run subject [] = Inr subject"
| "subject_run subject ((on_ground, now) # obs) =
     (case update_subject now on_ground subject of
        Inl e \<Rightarrow> Inl e
      | Inr (subject', cmds) \<Rightarrow> subject_run subject' obs)"

text \<open>
  The body of \<^verbatim>\<open>for i, yolo_track_id in enumerate(yolo_track_ids)\<close>. An exception
  leaves the loop, and the process, with the state reached so far.
\<close>

fun update_subject_states ::
  "env \<Rightarrow> frame_input \<Rightarrow> (nat \<times> int) list \<Rightarrow> det_state \<Rightarrow> (py_error \<times> det_state) + det_state" where
  "update_subject_states ev r [] s = Inr s"
| "update_subject_states ev r ((i, yolo_track_id) # rest) s =
     (case py_index (keypoints r) i of
        Inl e \<Rightarrow> Inl (e, s)
      | Inr keypoints_for_person \<Rightarrow>
          (let (subject, s1) =
             (case map_of (tracked_subjects s) yolo_track_id of
                None \<Rightarrow>
                  (let persistent_id = ''person_'' @ take 8 (uuid4_hex ev (uuid_calls s))
                   in (new_subject persistent_id,
                       s\<lparr>tracked_subjects :=
                           AList.update yolo_track_id (new_subject persistent_id)
                             (tracked_subjects s),
                         db_writer_queue :=
                           db_writer_queue s @ [create_new_subject persistent_id [] ''cam_01''],
                         uuid_calls := Suc (uuid_calls s)\<rparr>))
              | Some subject \<Rightarrow> (subject, s))
           in case is_person_on_ground_yolo keypoints_for_person (real (frame_height r))
                     ground_threshold_percent_default of
                Inl e \<Rightarrow> Inl (e, s1)
              | Inr on_ground \<Rightarrow>
                  (case update_subject (current_time r) on_ground subject of
                     Inl e \<Rightarrow> Inl (e, s1)
                   | Inr (subject', cmds) \<Rightarrow>
                       update_subject_states ev r rest
                         (s1\<lparr>tracked_subjects :=
                               AList.update yolo_track_id subject' (tracked_subjects s1),
                             db_writer_queue := db_writer_queue s1 @ cmds\<rparr>))))"

subsection \<open>Step 3 of the loop: lost tracks\<close>

text \<open>
  \<^verbatim>\<open>del tracked_subjects[lost_id]\<close> for every key that is not in \<^verbatim>\<open>current_track_ids\<close>.
  The deletions commute, so the order in which the set of lost keys is visited does not
  show in the result; the keys are taken in dictionary order.
\<close>

definition cleanup_lost_tracks :: "int set \<Rightarrow> det_state \<Rightarrow> det_state" where
  "cleanup_lost_tracks current_track_ids s =
     (let lost_track_ids =
            filter (\<lambda>k. k \<notin> current_track_ids) (remdups (map fst (tracked_subjects s)))
      in s\<lparr>tracked_subjects := fold AList.delete lost_track_ids (tracked_subjects s)\<rparr>)"

subsection \<open>Step 4 of the loop: the event\<close>

definition suspicious_subjects_of :: "det_state \<Rightarrow> subject list" where
  "suspicious_subjects_of s =
     filter (\<lambda>sub. status sub = Suspicious) (map snd (tracked_subjects s))"

text \<open>\<^verbatim>\<open>START a new event\<close>.\<close>

definition start_new_event :: "subject list \<Rightarrow> det_state \<Rightarrow> det_state" where
  "start_new_event suspicious_subjects s =
     (if suspicious_subjects \<noteq> [] \<and> event_status (active_event s) = Inactive then
        (let new_id = ObjectId (object_ids s);
             first_participant_id = tracking_id (hd suspicious_subjects)
         in s\<lparr>active_event :=
                (active_event s)\<lparr>event_status := Active, event_id := Some new_id,
                   participants := insert first_participant_id (participants (active_event s)),
                   last_vlm_trigger_time := 0\<rparr>,
              db_writer_queue :=
                db_writer_queue s @ [create_event (Some new_id) ''cam_01'' first_participant_id],
              object_ids := Suc (object_ids s)\<rparr>)
      else s)"

text \<open>\<^verbatim>\<open>END an existing event\<close>, as \<^verbatim>\<open>security_threat_detection.py\<close> has it.\<close>

definition end_existing_event :: "subject list \<Rightarrow> det_state \<Rightarrow> det_state" where
  "end_existing_event suspicious_subjects s =
     (if suspicious_subjects = [] \<and> event_status (active_event s) = Active then
        s\<lparr>db_writer_queue := db_writer_queue s @ [end_event (event_id (active_event s))],
          active_event :=
            (active_event s)\<lparr>event_status := Inactive, event_id := None, participants := {}\<rparr>\<rparr>
      else s)"

text \<open>
  The same block in \<^verbatim>\<open>security_threat_detection1.py\<close>: it has no
  \<^verbatim>\<open>active_event['participants'].clear()\<close>.
\<close>

definition end_existing_event1 :: "subject list \<Rightarrow> det_state \<Rightarrow> det_state" where
  "end_existing_event1 suspicious_subjects s =
     (if suspicious_subjects = [] \<and> event_status (active_event s) = Active then
        s\<lparr>db_writer_queue := db_writer_queue s @ [end_event (event_id (active_event s))],
          active_event := (active_event s)\<lparr>event_status := Inactive, event_id := None\<rparr>\<rparr>
      else s)"

text \<open>\<^verbatim>\<open>for tracking_id in new_participants\<close>, in the order the set is iterated.\<close>

fun add_new_participants :: "string list \<Rightarrow> det_state \<Rightarrow> det_state" where
  "add_new_participants [] s = s"
| "add_new_participants (tid # rest) s =
     add_new_participants rest
       (s\<lparr>db_writer_queue :=
            db_writer_queue s @ [add_participant_to_event (event_id (active_event s)) tid],
          active_event :=
            (active_event s)\<lparr>participants := insert tid (participants (active_event s))\<rparr>\<rparr>)"

text \<open>\<^verbatim>\<open>CONTINUOUS VLM ANALYSIS\<close>.\<close>

definition continuous_vlm_analysis ::
  "env \<Rightarrow> real \<Rightarrow> image \<Rightarrow> subject list \<Rightarrow> det_state \<Rightarrow> det_state" where
  "continuous_vlm_analysis ev now frame suspicious_subjects s =
     (if event_status (active_event s) = Active
         \<and> now - last_vlm_trigger_time (active_event s) \<ge> VLM_INTERVAL_SEC then
        (let current_participant_ids = set (map tracking_id suspicious_subjects);
             new_participants = current_participant_ids - participants (active_event s);
             s1 = add_new_participants (set_iter ev new_participants) s;
             jpg_as_text = jpg_base64 ev frame;
             s2 = s1\<lparr>vlm_task_queue :=
                       vlm_task_queue s1 @
                         [\<lparr>task_event_id = event_id (active_event s1),
                           subjects = map tracking_id suspicious_subjects,
                           base64_frame = jpg_as_text\<rparr>]\<rparr>
         in s2\<lparr>active_event := (active_event s2)\<lparr>last_vlm_trigger_time := now\<rparr>\<rparr>)
      else s)"

text \<open>The three blocks in the order of the source, on one list of suspicious subjects.\<close>

definition event_section ::
  "env \<Rightarrow> real \<Rightarrow> image \<Rightarrow> subject list \<Rightarrow> det_state \<Rightarrow> det_state" where
  "event_section ev now frame suspicious_subjects s =
     continuous_vlm_analysis ev now frame suspicious_subjects
       (end_existing_event suspicious_subjects (start_new_event suspicious_subjects s))"

definition event_section1 ::
  "env \<Rightarrow> real \<Rightarrow> image \<Rightarrow> subject list \<Rightarrow> det_state \<Rightarrow> det_state" where
  "event_section1 ev now frame suspicious_subjects s =
     continuous_vlm_analysis ev now frame suspicious_subjects
       (end_existing_event1 suspicious_subjects (start_new_event suspicious_subjects s))"

subsection \<open>One iteration of the loop, and the loop\<close>

text \<open>
  \<^verbatim>\<open>if results.boxes.id is None: continue\<close> comes first; then steps 2, 3 and 4.
\<close>

definition process_frame ::
  "env \<Rightarrow> frame_input \<Rightarrow> det_state \<Rightarrow> (py_error \<times> det_state) + det_state" where
  "process_frame ev r s =
     (case boxes_id r of
        None \<Rightarrow> Inr s
      | Some yolo_track_ids \<Rightarrow>
          (case update_subject_states ev r (enumerate 0 yolo_track_ids) s of
             Inl e \<Rightarrow> Inl e
           | Inr s1 \<Rightarrow>
               (let s2 = cleanup_lost_tracks (set yolo_track_ids) s1
                in Inr (event_section ev (current_time r) (orig_img r)
                          (suspicious_subjects_of s2) s2))))"

fun threat_detection_process ::
  "env \<Rightarrow> frame_input list \<Rightarrow> det_state \<Rightarrow> (py_error \<times> det_state) + det_state" where
  "threat_detection_process ev [] s = Inr s"
| "threat_detection_process ev (r # rs) s =
     (case process_frame ev r s of
        Inl e \<Rightarrow> Inl e
      | Inr s' \<Rightarrow> threat_detection_process ev rs s')"

text \<open>The state the process is left in, whether it raised or consumed all frames.\<close>

definition final_state :: "(py_error \<times> det_state) + det_state \<Rightarrow> det_state" where
  "final_state res = (case res of Inl (e, s) \<Rightarrow> s | Inr s \<Rightarrow> s)"

subsection \<open>Reading the persistence queue\<close>

text \<open>
  A monitor over the commands in queue order. Its state is the event that is open.
  It accepts \<open>create_event\<close> only when no event is open, and \<open>end_event\<close> and
  \<open>add_participant_to_event\<close> only for the event that is open; \<open>None\<close> is rejection.
\<close>

fun replay :: "object_id option \<Rightarrow> db_command list \<Rightarrow> object_id option option" where
  "replay cur [] = Some cur"
| "replay cur (create_event e cam p # cs) =
     (if cur = None \<and> e \<noteq> None then replay e cs else None)"
| "replay cur (end_event e # cs) =
     (if cur \<noteq> None \<and> e = cur then replay None cs else None)"
| "replay cur (add_participant_to_event e p # cs) =
     (if cur \<noteq> None \<and> e = cur then replay cur cs else None)"
| "replay cur (create_new_subject p v cam # cs) = replay cur cs"
| "replay cur (update_subject_status p st # cs) = replay cur cs"
| "replay cur (add_vlm_log e cam d v ps # cs) = replay cur cs"

subsection \<open>Concrete inputs\<close>

text \<open>
  An environment, two keypoint tensors (a person lying low in a frame of height 480, and a
  person standing) and frames built from them; they are the inputs on which the theorems
  below are evaluated.
\<close>

definition env0 :: env where
  "env0 =
     \<lparr>uuid4_hex = (\<lambda>n. if n = 0 then ''a1b2c3d4e5f6'' else ''f6e7d8c9b0a1''),
      set_iter = (\<lambda>S. filter (\<lambda>p. p \<in> S) [''person_a1b2c3d4'', ''person_f6e7d8c9'']),
      jpg_base64 = (\<lambda>img. ''/9j/4AAQ'')\<rparr>"

definition lying_kps :: "keypoint list" where
  "lying_kps =
     replicate 5 (0, 0, 0) @ [(100, 400, 0.9), (120, 420, 0.9)]
       @ replicate 4 (0, 0, 0) @ [(100, 300, 0.1), (120, 300, 0.2)]"

definition standing_kps :: "keypoint list" where
  "standing_kps =
     replicate 5 (0, 0, 0) @ [(100, 100, 0.9), (120, 120, 0.9)]
       @ replicate 4 (0, 0, 0) @ [(100, 200, 0.9), (120, 200, 0.9)]"

definition frame_at :: "real \<Rightarrow> int list option \<Rightarrow> keypoint list list \<Rightarrow> frame_input" where
  "frame_at t ids kpss =
     \<lparr>current_time = t, orig_img = [], frame_height = 480, boxes_id = ids, keypoints = kpss\<rparr>"

text \<open>
  The state after one frame in which track 7 is seen standing, and the state after a
  second frame in which only track 8 is seen, standing too.
\<close>

definition state_one_standing :: det_state where
  "state_one_standing =
     \<lparr>tracked_subjects = [(7, new_subject ''person_a1b2c3d4'')],
      active_event = \<lparr>event_id = None, event_status = Inactive,
                      last_vlm_trigger_time = 0, participants = {}\<rparr>,
      db_writer_queue = [create_new_subject ''person_a1b2c3d4'' [] ''cam_01''],
      vlm_task_queue = [], uuid_calls = 1, object_ids = 0\<rparr>"

definition state_other_standing :: det_state where
  "state_other_standing =
     \<lparr>tracked_subjects = [(8, new_subject ''person_f6e7d8c9'')],
      active_event = \<lparr>event_id = None, event_status = Inactive,
                      last_vlm_trigger_time = 0, participants = {}\<rparr>,
      db_writer_queue = [create_new_subject ''person_a1b2c3d4'' [] ''cam_01'',
                         create_new_subject ''person_f6e7d8c9'' [] ''cam_01''],
      vlm_task_queue = [], uuid_calls = 2, object_ids = 0\<rparr>"

subsection \<open>What the status of a subject is measured against\<close>

text \<open>
  The unbroken run of pose-true frames that ends with the last frame of a list of
  observations; it is empty when the last frame is pose-false.
\<close>

definition trailing_streak :: "(bool \<times> real) list \<Rightarrow> (bool \<times> real) list" where
  "trailing_streak obs = rev (takeWhile fst (rev obs))"


text \<open>What each status records about the frames seen so far.\<close>

definition subject_inv :: "subject \<Rightarrow> (bool \<times> real) list \<Rightarrow> bool" where
  "subject_inv sub obs =
     (case status sub of
        Normal \<Rightarrow> pose_start_time sub = None \<and> \<not> is_confirmed_suspicious sub
                  \<and> trailing_streak obs = []
      | Pending \<Rightarrow> \<not> is_confirmed_suspicious sub \<and> trailing_streak obs \<noteq> []
                  \<and> pose_start_time sub = Some (snd (hd (trailing_streak obs)))
      | Suspicious \<Rightarrow> is_confirmed_suspicious sub \<and> trailing_streak obs \<noteq> []
                  \<and> pose_start_time sub = Some (snd (hd (trailing_streak obs)))
                  \<and> (\<exists>ob \<in> set (trailing_streak obs).
                        POSE_CONFIRMATION_SEC \<le> snd ob - snd (hd (trailing_streak obs))))"

text \<open>
  What holds of the event and the persistence queue between two iterations of the loop:
  the monitor accepts the queue and ends in the event the process holds, the process
  holds an event exactly when its status is active, and \<open>participants\<close> is empty when
  it is not.
\<close>

definition event_inv :: "det_state \<Rightarrow> bool" where
  "event_inv s =
     (replay None (db_writer_queue s) = Some (event_id (active_event s))
      \<and> (event_status (active_event s) = Active) = (event_id (active_event s) \<noteq> None)
      \<and> (event_status (active_event s) = Active \<or> participants (active_event s) = {}))"

subsection \<open>Fixtures for the event operations\<close>

definition suspicious_at :: "string \<Rightarrow> real \<Rightarrow> subject" where
  "suspicious_at pid t0 =
     \<lparr>tracking_id = pid, status = Suspicious, pose_start_time = Some t0,
      is_confirmed_suspicious = True\<rparr>"

definition state_event_open :: det_state where
  "state_event_open =
     \<lparr>tracked_subjects = [(7, suspicious_at ''person_a1b2c3d4'' 1000),
                          (8, suspicious_at ''person_f6e7d8c9'' 1002)],
      active_event = \<lparr>event_id = Some (ObjectId 0), event_status = Active,
                      last_vlm_trigger_time = 1001, participants = {''person_a1b2c3d4''}\<rparr>,
      db_writer_queue =
        [create_new_subject ''person_a1b2c3d4'' [] ''cam_01'',
         update_subject_status ''person_a1b2c3d4'' Suspicious,
         create_event (Some (ObjectId 0)) ''cam_01'' ''person_a1b2c3d4'',
         create_new_subject ''person_f6e7d8c9'' [] ''cam_01'',
         update_subject_status ''person_f6e7d8c9'' Suspicious],
      vlm_task_queue =
        [\<lparr>task_event_id = Some (ObjectId 0), subjects = [''person_a1b2c3d4''],
          base64_frame = ''/9j/4AAQ''\<rparr>],
      uuid_calls = 2, object_ids = 1\<rparr>"

subsection \<open>The event section over several frames\<close>

text \<open>
  The event section of consecutive iterations, given each iteration's clock reading and list
  of suspicious subjects: with the END block of \<^verbatim>\<open>security_threat_detection1.py\<close>
  (\<open>event_run1\<close>) and with that of \<^verbatim>\<open>security_threat_detection.py\<close> (\<open>event_run\<close>).
\<close>

definition event_run1 :: "env \<Rightarrow> (real \<times> subject list) list \<Rightarrow> det_state \<Rightarrow> det_state" where
  "event_run1 ev steps s = fold (\<lambda>(now, suspicious_subjects). event_section1 ev now [] suspicious_subjects) steps s"

definition event_run :: "env \<Rightarrow> (real \<times> subject list) list \<Rightarrow> det_state \<Rightarrow> det_state" where
  "event_run ev steps s = fold (\<lambda>(now, suspicious_subjects). event_section ev now [] suspicious_subjects) steps s"

section \<open>The persistence consumer (\<^verbatim>\<open>security_db_writer.py\<close>)\<close>

text \<open>
  What \<^verbatim>\<open>db_queue.get()\<close> returns: \<^verbatim>\<open>None\<close>, a dict (its \<^verbatim>\<open>'action'\<close> entry, if any,
  and its \<^verbatim>\<open>'payload'\<close> entry, if any, a dict of keyword arguments), or an object
  without a \<^verbatim>\<open>get\<close> method. The \<^verbatim>\<open>DatabaseManager\<close> talks to MongoDB: each of its
  methods is a function of the keyword arguments and the store that returns the store it
  leaves behind and the exception it raised, if any (a \<^verbatim>\<open>TypeError\<close> of the call
  \<^verbatim>\<open>method(**payload)\<close> included). \<open>printed\<close> is what the process prints in and after the
  loop. The queue is the list of the items that arrive, in arrival order; the blocking
  \<^verbatim>\<open>get\<close> on an exhausted list never returns (\<open>Blocked\<close>), and \<open>Returned\<close> carries the
  items that were never read.
\<close>

datatype 'v db_task = PyNone | PyDict "string option" "(string \<times> 'v) list option" | PyOther

type_synonym ('v, 'db) db_method = "(string \<times> 'v) list \<Rightarrow> 'db \<Rightarrow> 'db \<times> string option"

record ('v, 'db) database_manager =
  dm_create_event :: "('v, 'db) db_method"
  dm_add_participant_to_event :: "('v, 'db) db_method"
  dm_end_event :: "('v, 'db) db_method"
  dm_add_vlm_log :: "('v, 'db) db_method"
  dm_create_new_subject :: "('v, 'db) db_method"
  dm_update_subject_status :: "('v, 'db) db_method"
  dm_close :: "'db \<Rightarrow> 'db"

datatype writer_message =
    ShutdownSignalReceived
  | UnknownAction "string option"
  | ErrorProcessingTask string
  | ShuttingDown

record 'db writer_state =
  store :: 'db
  printed :: "writer_message list"

datatype ('v, 'db) writer_outcome =
    Returned "'db writer_state" "'v db_task list"
  | Blocked "'db writer_state"

definition known_actions :: "string list" where
  "known_actions = [''create_event'', ''add_participant_to_event'', ''end_event'',
                    ''add_vlm_log'', ''create_new_subject'', ''update_subject_status'']"

text \<open>\<^verbatim>\<open>if task is None or task.get('action') == 'shutdown': break\<close>. On an object without
  \<^verbatim>\<open>get\<close> the test raises \<^verbatim>\<open>AttributeError\<close>, which \<^verbatim>\<open>except Exception\<close> catches: no
  break.\<close>

definition is_shutdown :: "'v db_task \<Rightarrow> bool" where
  "is_shutdown task =
     (case task of PyNone \<Rightarrow> True
      | PyDict action pl \<Rightarrow> action = Some ''shutdown''
      | PyOther \<Rightarrow> False)"

text \<open>The \<^verbatim>\<open>if\<close>/\<^verbatim>\<open>elif\<close> chain over \<^verbatim>\<open>action\<close>; \<open>None\<close> is the final \<^verbatim>\<open>else\<close>.\<close>

definition route :: "('v, 'db) database_manager \<Rightarrow> string option \<Rightarrow> ('v, 'db) db_method option" where
  "route db_manager action =
     (if action = Some ''create_event'' then Some (dm_create_event db_manager)
      else if action = Some ''add_participant_to_event'' then Some (dm_add_participant_to_event db_manager)
      else if action = Some ''end_event'' then Some (dm_end_event db_manager)
      else if action = Some ''add_vlm_log'' then Some (dm_add_vlm_log db_manager)
      else if action = Some ''create_new_subject'' then Some (dm_create_new_subject db_manager)
      else if action = Some ''update_subject_status'' then Some (dm_update_subject_status db_manager)
      else None)"

text \<open>
  The body of the \<^verbatim>\<open>try\<close> for a task that is not a shutdown signal, with its
  \<^verbatim>\<open>except Exception\<close> handler; \<^verbatim>\<open>payload = task.get('payload', {})\<close>.
\<close>

definition process_task ::
  "('v, 'db) database_manager \<Rightarrow> 'v db_task \<Rightarrow> 'db writer_state \<Rightarrow> 'db writer_state" where
  "process_task db_manager task st =
     (case task of
        PyNone \<Rightarrow> st
      | PyOther \<Rightarrow> st\<lparr>printed := printed st @ [ErrorProcessingTask ''AttributeError'']\<rparr>
      | PyDict action pl \<Rightarrow>
          (let payload = (case pl of None \<Rightarrow> [] | Some p \<Rightarrow> p) in
           case route db_manager action of
             None \<Rightarrow> st\<lparr>printed := printed st @ [UnknownAction action]\<rparr>
           | Some method \<Rightarrow>
               (case method payload (store st) of
                  (db, None) \<Rightarrow> st\<lparr>store := db\<rparr>
                | (db, Some e) \<Rightarrow> st\<lparr>store := db, printed := printed st @ [ErrorProcessingTask e]\<rparr>)))"

text \<open>\<^verbatim>\<open>db_manager.close()\<close> and the last message, after the loop.\<close>

definition after_loop :: "('v, 'db) database_manager \<Rightarrow> 'db writer_state \<Rightarrow> 'db writer_state" where
  "after_loop db_manager st =
     st\<lparr>store := dm_close db_manager (store st), printed := printed st @ [ShuttingDown]\<rparr>"

fun db_writer_loop ::
  "('v, 'db) database_manager \<Rightarrow> 'v db_task list \<Rightarrow> 'db writer_state \<Rightarrow> ('v, 'db) writer_outcome" where
  "db_writer_loop db_manager [] st = Blocked st"
| "db_writer_loop db_manager (task # rest) st =
     (if is_shutdown task then
        Returned (after_loop db_manager (st\<lparr>printed := printed st @ [ShutdownSignalReceived]\<rparr>)) rest
      else db_writer_loop db_manager rest (process_task db_manager task st))"

text \<open>
  The process: \<open>connect\<close> is the outcome of \<^verbatim>\<open>DatabaseManager(MONGO_URI, DB_NAME)\<close>,
  \<open>None\<close> when the constructor raises (the process returns before the loop).
\<close>

definition db_writer_process ::
  "(('v, 'db) database_manager \<times> 'db) option \<Rightarrow> 'v db_task list \<Rightarrow> ('v, 'db) writer_outcome option" where
  "db_writer_process connect db_queue =
     (case connect of
        None \<Rightarrow> None
      | Some (db_manager, db) \<Rightarrow> Some (db_writer_loop db_manager db_queue \<lparr>store = db, printed = []\<rparr>))"

text \<open>
  A store that records the collection operations in order; a method called with no keyword
  argument raises \<^verbatim>\<open>TypeError\<close> (every method has a required parameter).
\<close>

definition dm0 :: "(string, (string \<times> (string \<times> string) list) list) database_manager" where
  "dm0 =
     (let insert_doc = (\<lambda>name payload db.
            if payload = [] then (db, Some ''TypeError'') else (db @ [(name, payload)], None))
      in \<lparr>dm_create_event = insert_doc ''Events.insert_one'',
          dm_add_participant_to_event = insert_doc ''Events.update_one'',
          dm_end_event = insert_doc ''Events.update_one'',
          dm_add_vlm_log = insert_doc ''VlmLogs.insert_one'',
          dm_create_new_subject = insert_doc ''TrackedSubjects.insert_one'',
          dm_update_subject_status = insert_doc ''TrackedSubjects.update_one'',
          dm_close = (\<lambda>db. db @ [(''client.close'', [])])\<rparr>)"

section \<open>The analysis worker (\<^verbatim>\<open>security_worker.py\<close>)\<close>



text \<open>What \<^verbatim>\<open>run_vlm_analysis\<close> prints, and the worker's view of the persistence queue.\<close>

datatype worker_message =
    ReceivedVlmTask "object_id option"
  | ScreenCaptureError string
  | StreamingResponse
  | LlmTextOutput string
  | SentVlmLog "object_id option"
  | WorkerError string

record worker_state =
  worker_db_queue :: "db_command list"
  worker_printed :: "worker_message list"



definition say :: "worker_message \<Rightarrow> worker_state \<Rightarrow> worker_state" where
  "say m st = st\<lparr>worker_printed := worker_printed st @ [m]\<rparr>"
















section \<open>Properties\<close>

subsection \<open>The ground-pose heuristic\<close>



subsection \<open>Lost tracks and frames without tracked persons\<close>

lemma fold_delete_filter: "fold AList.delete ks xs = filter (\<lambda>p. fst p \<notin> set ks) xs"
  by (induction ks arbitrary: xs) (auto simp: AList.delete_eq split_def intro: filter_cong)

lemma tracked_cleanup:
  "tracked_subjects (cleanup_lost_tracks C s) = filter (\<lambda>p. fst p \<in> C) (tracked_subjects s)"
  by (auto simp: cleanup_lost_tracks_def fold_delete_filter intro!: filter_cong)

lemma add_new_participants_tracked [simp]:
  "tracked_subjects (add_new_participants ps s) = tracked_subjects s"
  by (induction ps arbitrary: s) auto

lemma event_section_tracked [simp]:
  "tracked_subjects (event_section ev now img susp s) = tracked_subjects s"
  by (simp add: event_section_def continuous_vlm_analysis_def end_existing_event_def
      start_new_event_def Let_def)

lemma process_frame_keys:
  assumes "boxes_id r = Some ids" "process_frame ev r s = Inr s'"
  shows "fst ` set (tracked_subjects s') \<subseteq> set ids"
  using assms
  by (auto simp: process_frame_def tracked_cleanup Let_def split: sum.splits)

text \<open>
  Claim C10. A frame in which the tracker reports no tracked person
  (\<^verbatim>\<open>results.boxes.id is None\<close>) leaves the whole state as it was: the subjects, the
  event and both queues.
\<close>

theorem no_tracked_persons_frame:
  "boxes_id r = None \<Longrightarrow> process_frame ev r s = Inr s"
  by (simp add: process_frame_def)

theorem no_tracked_persons_frame_witness:
  "boxes_id (frame_at 1001 None []) = None \<and>
   process_frame env0 (frame_at 1001 None []) state_one_standing = Inr state_one_standing"
  using no_tracked_persons_frame [of "frame_at 1001 None []" env0 state_one_standing]
  by (simp add: frame_at_def)

text \<open>
  Claim C4, as amended. In a frame that reports tracked persons and is processed without
  an exception, no track that is absent from the frame is left in \<open>tracked_subjects\<close>;
  and the removal step puts nothing on either queue.
\<close>

theorem lost_tracks_removed:
  assumes "boxes_id r = Some ids" and "process_frame ev r s = Inr s'"
  shows "(\<forall>tid. tid \<notin> set ids \<longrightarrow> map_of (tracked_subjects s') tid = None)
         \<and> db_writer_queue (cleanup_lost_tracks C s1) = db_writer_queue s1
         \<and> vlm_task_queue (cleanup_lost_tracks C s1) = vlm_task_queue s1"
proof -
  have "map_of (tracked_subjects s') tid = None" if "tid \<notin> set ids" for tid
    using process_frame_keys [OF assms] that by (auto simp: map_of_eq_None_iff)
  then show ?thesis by (simp add: cleanup_lost_tracks_def Let_def)
qed

lemma lying_on_ground:
  "is_person_on_ground_yolo lying_kps 480 ground_threshold_percent_default = Inr True"
  by (simp add: is_person_on_ground_yolo_def py_index_def lying_kps_def kp_y_def kp_conf_def
      ground_threshold_percent_default_def
      LEFT_SHOULDER_def RIGHT_SHOULDER_def LEFT_HIP_def RIGHT_HIP_def nth_append)

lemma standing_not_on_ground:
  "is_person_on_ground_yolo standing_kps 480 ground_threshold_percent_default = Inr False"
  by (simp add: is_person_on_ground_yolo_def py_index_def standing_kps_def kp_y_def kp_conf_def
      ground_threshold_percent_default_def
      LEFT_SHOULDER_def RIGHT_SHOULDER_def LEFT_HIP_def RIGHT_HIP_def nth_append)

lemmas frame_eval =
  env0_def frame_at_def initial_state_def process_frame_def lying_on_ground
  standing_not_on_ground enumerate_eq_zip py_index_def update_subject_def new_subject_def
  cleanup_lost_tracks_def event_section_def continuous_vlm_analysis_def end_existing_event_def
  start_new_event_def suspicious_subjects_of_def POSE_CONFIRMATION_SEC_def VLM_INTERVAL_SEC_def
  Let_def

lemma reach_state_one_standing:
  "process_frame env0 (frame_at 1000 (Some [7]) [standing_kps]) initial_state
     = Inr state_one_standing"
  by (simp add: frame_eval state_one_standing_def)

lemma reach_state_other_standing:
  "process_frame env0 (frame_at 1001 (Some [8]) [standing_kps]) state_one_standing
     = Inr state_other_standing"
  by (simp add: frame_eval state_one_standing_def state_other_standing_def)

theorem lost_tracks_removed_witness:
  "boxes_id (frame_at 1001 (Some [8]) [standing_kps]) = Some [8] \<and>
   process_frame env0 (frame_at 1001 (Some [8]) [standing_kps]) state_one_standing
     = Inr state_other_standing \<and>
   map_of (tracked_subjects state_one_standing) 7 \<noteq> None \<and> 7 \<notin> set [8 :: int] \<and>
   map_of (tracked_subjects state_other_standing) 7 = None \<and>
   db_writer_queue (cleanup_lost_tracks {8} state_one_standing)
     = db_writer_queue state_one_standing \<and>
   vlm_task_queue (cleanup_lost_tracks {8} state_one_standing)
     = vlm_task_queue state_one_standing"
  using lost_tracks_removed
    [of "frame_at 1001 (Some [8]) [standing_kps]" "[8]" env0 state_one_standing
        state_other_standing "{8}" state_one_standing]
    reach_state_other_standing
  by (simp add: frame_at_def state_one_standing_def)

text \<open>
  Claim C4 as stated fails: track 7 is in \<open>tracked_subjects\<close>, the next frame reports no
  tracked person at all, so track 7 is absent from it, and track 7 is still there after
  the frame.
\<close>

theorem lost_tracks_kept_counterexample:
  "map_of (tracked_subjects state_one_standing) 7 \<noteq> None \<and>
   boxes_id (frame_at 1001 None []) = None \<and>
   map_of (tracked_subjects
             (final_state (process_frame env0 (frame_at 1001 None []) state_one_standing))) 7
     \<noteq> None"
  by (simp add: process_frame_def frame_at_def final_state_def state_one_standing_def)

subsection \<open>The status of a subject\<close>

lemma trailing_streak_True [simp]:
  "trailing_streak (obs @ [(True, t)]) = trailing_streak obs @ [(True, t)]"
  by (simp add: trailing_streak_def)

lemma trailing_streak_False [simp]: "trailing_streak (obs @ [(False, t)]) = []"
  by (simp add: trailing_streak_def)

lemma trailing_streak_Nil [simp]: "trailing_streak [] = []"
  by (simp add: trailing_streak_def)

lemma subject_run_snoc:
  "subject_run sub (obs @ [(g, t)]) =
     (case subject_run sub obs of Inl e \<Rightarrow> Inl e
      | Inr sub' \<Rightarrow> (case update_subject t g sub' of Inl e \<Rightarrow> Inl e | Inr (sub'', cmds) \<Rightarrow> Inr sub''))"
  by (induction sub obs rule: subject_run.induct) (auto split: sum.splits prod.splits)

lemma update_subject_inv:
  assumes "subject_inv sub obs"
  shows "\<exists>sub' cmds. update_subject t g sub = Inr (sub', cmds) \<and> subject_inv sub' (obs @ [(g, t)])
           \<and> tracking_id sub' = tracking_id sub"
  using assms
  by (cases g; cases "status sub")
     (auto simp: subject_inv_def update_subject_def hd_append split: subject_status.splits)

lemma subject_run_inv:
  "\<exists>sub. subject_run (new_subject pid) obs = Inr sub \<and> subject_inv sub obs"
proof (induction obs rule: rev_induct)
  case Nil
  show ?case by (simp add: subject_inv_def new_subject_def)
next
  case (snoc x xs)
  then obtain sub where s: "subject_run (new_subject pid) xs = Inr sub" "subject_inv sub xs" by blast
  obtain g t where x: "x = (g, t)" by (cases x)
  from update_subject_inv [OF s(2), of t g] obtain sub' cmds where
    u: "update_subject t g sub = Inr (sub', cmds)" "subject_inv sub' (xs @ [(g, t)])" by blast
  show ?case using s u x by (simp add: subject_run_snoc)
qed

text \<open>
  Claim C2. A Normal subject seen in the pose becomes Pending and records the time. A
  subject that has been Pending since \<open>t0\<close> and is seen in the pose at a time at least
  \<open>POSE_CONFIRMATION_SEC\<close> later becomes Suspicious. Any frame out of the pose returns a
  Pending or Suspicious subject to Normal and clears the start time and the confirmed
  flag. No sequence of frames makes the step raise; and whenever a subject is Suspicious,
  the frames since its last pose-false frame are an unbroken pose-true run that starts at
  the recorded start time and contains a frame at least the window later.
\<close>

theorem suspicious_only_after_full_window:
  "(status a = Normal \<longrightarrow>
      update_subject t True a = Inr (a\<lparr>status := Pending, pose_start_time := Some t\<rparr>, []))
   \<and> (subject_run (new_subject pid) obs = Inr b \<and> status b = Pending
        \<and> pose_start_time b = Some t0 \<and> POSE_CONFIRMATION_SEC \<le> t' - t0 \<longrightarrow>
      subject_run (new_subject pid) (obs @ [(True, t')])
        = Inr (b\<lparr>status := Suspicious, is_confirmed_suspicious := True\<rparr>))
   \<and> (status c \<noteq> Normal \<longrightarrow>
      update_subject t'' False c
        = Inr (c\<lparr>status := Normal, pose_start_time := None, is_confirmed_suspicious := False\<rparr>,
               [update_subject_status (tracking_id c) Normal]))
   \<and> (\<exists>sub. subject_run (new_subject pid') obs' = Inr sub)
   \<and> (subject_run (new_subject pid') obs' = Inr d \<and> status d = Suspicious \<longrightarrow>
      trailing_streak obs' \<noteq> [] \<and> list_all fst (trailing_streak obs')
      \<and> pose_start_time d = Some (snd (hd (trailing_streak obs')))
      \<and> (\<exists>ob \<in> set (trailing_streak obs').
            POSE_CONFIRMATION_SEC \<le> snd ob - snd (hd (trailing_streak obs'))))"
proof (intro conjI impI)
  show "update_subject t True a = Inr (a\<lparr>status := Pending, pose_start_time := Some t\<rparr>, [])"
    if "status a = Normal" using that by (simp add: update_subject_def)
  show "subject_run (new_subject pid) (obs @ [(True, t')])
        = Inr (b\<lparr>status := Suspicious, is_confirmed_suspicious := True\<rparr>)"
    if h: "subject_run (new_subject pid) obs = Inr b \<and> status b = Pending
        \<and> pose_start_time b = Some t0 \<and> POSE_CONFIRMATION_SEC \<le> t' - t0"
  proof -
    from subject_run_inv [of pid obs] h have "subject_inv b obs" by auto
    with h have "\<not> is_confirmed_suspicious b" by (simp add: subject_inv_def)
    with h show ?thesis by (simp add: subject_run_snoc update_subject_def)
  qed
  show "update_subject t'' False c
        = Inr (c\<lparr>status := Normal, pose_start_time := None, is_confirmed_suspicious := False\<rparr>,
               [update_subject_status (tracking_id c) Normal])"
    if "status c \<noteq> Normal" using that by (simp add: update_subject_def)
  show "\<exists>sub. subject_run (new_subject pid') obs' = Inr sub"
    using subject_run_inv [of pid' obs'] by blast
  assume h: "subject_run (new_subject pid') obs' = Inr d \<and> status d = Suspicious"
  from subject_run_inv [of pid' obs'] h have inv: "subject_inv d obs'" by auto
  with h show "trailing_streak obs' \<noteq> []" by (simp add: subject_inv_def)
  show "list_all fst (trailing_streak obs')"
    by (simp add: trailing_streak_def list_all_iff) (meson set_takeWhileD)
  from inv h show "pose_start_time d = Some (snd (hd (trailing_streak obs')))"
    by (simp add: subject_inv_def)
  from inv h show "\<exists>ob \<in> set (trailing_streak obs').
            POSE_CONFIRMATION_SEC \<le> snd ob - snd (hd (trailing_streak obs'))"
    by (simp add: subject_inv_def)
qed

lemmas subj_eval = update_subject_def new_subject_def POSE_CONFIRMATION_SEC_def trailing_streak_def

theorem suspicious_only_after_full_window_witness:
  "status (new_subject ''person_a1b2c3d4'') = Normal
   \<and> update_subject 1000 True (new_subject ''person_a1b2c3d4'')
       = Inr ((new_subject ''person_a1b2c3d4'')\<lparr>status := Pending, pose_start_time := Some 1000\<rparr>, [])
   \<and> subject_run (new_subject ''person_a1b2c3d4'') [(True, 1000)]
       = Inr ((new_subject ''person_a1b2c3d4'')\<lparr>status := Pending, pose_start_time := Some 1000\<rparr>)
   \<and> POSE_CONFIRMATION_SEC \<le> 1001 - 1000
   \<and> subject_run (new_subject ''person_a1b2c3d4'') ([(True, 1000)] @ [(True, 1001)])
       = Inr ((new_subject ''person_a1b2c3d4'')
                \<lparr>status := Pending, pose_start_time := Some 1000,
                  status := Suspicious, is_confirmed_suspicious := True\<rparr>)
   \<and> update_subject 1002 False
        ((new_subject ''person_a1b2c3d4'')\<lparr>status := Pending, pose_start_time := Some 1000\<rparr>)
       = Inr (new_subject ''person_a1b2c3d4'',
              [update_subject_status ''person_a1b2c3d4'' Normal])
   \<and> trailing_streak [(True, 1000), (True, 1001)] = [(True, 1000), (True, 1001)]
   \<and> (\<exists>ob \<in> set (trailing_streak [(True, 1000), (True, 1001)]).
         POSE_CONFIRMATION_SEC \<le> snd ob - snd (hd (trailing_streak [(True, 1000), (True, 1001)])))"
  using suspicious_only_after_full_window
    [of "new_subject ''person_a1b2c3d4''" 1000 "''person_a1b2c3d4''" "[(True, 1000)]"
        "(new_subject ''person_a1b2c3d4'')\<lparr>status := Pending, pose_start_time := Some 1000\<rparr>"
        1000 1001
        "(new_subject ''person_a1b2c3d4'')\<lparr>status := Pending, pose_start_time := Some 1000\<rparr>"
        1002 "''person_a1b2c3d4''" "[(True, 1000), (True, 1001)]"
        "(new_subject ''person_a1b2c3d4'')
                \<lparr>status := Pending, pose_start_time := Some 1000,
                  status := Suspicious, is_confirmed_suspicious := True\<rparr>"]
  by (simp add: subj_eval)

subsection \<open>At most one event\<close>



lemma replay_append:
  "replay cur (xs @ ys) = (case replay cur xs of None \<Rightarrow> None | Some c \<Rightarrow> replay c ys)"
  by (induction cur xs rule: replay.induct) auto

lemma replay_take: "replay cur xs \<noteq> None \<Longrightarrow> replay cur (take n xs) \<noteq> None"
proof -
  assume a: "replay cur xs \<noteq> None"
  have "replay cur (take n xs @ drop n xs) \<noteq> None" using a by simp
  then show ?thesis unfolding replay_append by (auto split: option.splits)
qed

lemma update_subject_neutral:
  "update_subject t g sub = Inr (sub', cmds) \<Longrightarrow> replay cur cmds = Some cur"
  by (auto simp: update_subject_def split: if_splits option.splits)

lemma update_subject_states_inv:
  "event_inv s \<Longrightarrow> event_inv (final_state (update_subject_states ev r ids s))"
proof (induction ev r ids s rule: update_subject_states.induct)
  case (1 ev r s)
  then show ?case by (simp add: final_state_def)
next
  case (2 ev r i yolo_track_id rest s)
  show ?case
  proof (cases "py_index (keypoints r) i")
    case (Inl e)
    then show ?thesis using 2(2) by (simp add: final_state_def)
  next
    case (Inr kp)
    define pr where "pr = (case map_of (tracked_subjects s) yolo_track_id of
                None \<Rightarrow>
                  (let persistent_id = ''person_'' @ take 8 (uuid4_hex ev (uuid_calls s))
                   in (new_subject persistent_id,
                       s\<lparr>tracked_subjects :=
                           AList.update yolo_track_id (new_subject persistent_id)
                             (tracked_subjects s),
                         db_writer_queue :=
                           db_writer_queue s @ [create_new_subject persistent_id [] ''cam_01''],
                         uuid_calls := Suc (uuid_calls s)\<rparr>))
              | Some subject \<Rightarrow> (subject, s))"
    obtain subject s1 where pr: "pr = (subject, s1)" by (cases pr)
    have inv1: "event_inv s1"
      using 2(2) pr unfolding pr_def
      by (auto simp: event_inv_def replay_append Let_def split: option.splits)
    show ?thesis
    proof (cases "is_person_on_ground_yolo kp (real (frame_height r)) ground_threshold_percent_default")
      case (Inl e)
      then show ?thesis using Inr pr inv1 unfolding pr_def
        by (simp add: final_state_def)
    next
      case g: (Inr on_ground)
      show ?thesis
      proof (cases "update_subject (current_time r) on_ground subject")
        case (Inl e)
        then show ?thesis using Inr g pr inv1 unfolding pr_def by (simp add: final_state_def)
      next
        case u: (Inr res)
        obtain subject' cmds where res: "res = (subject', cmds)" by (cases res)
        let ?s2 = "s1\<lparr>tracked_subjects := AList.update yolo_track_id subject' (tracked_subjects s1),
                             db_writer_queue := db_writer_queue s1 @ cmds\<rparr>"
        have "event_inv ?s2"
          using inv1 update_subject_neutral [OF u [unfolded res]]
          by (auto simp: event_inv_def replay_append)
        from 2(1) [OF Inr _ pr [symmetric, unfolded pr_def] g u [unfolded res] _ this]
        have "event_inv (final_state (update_subject_states ev r rest ?s2))" by simp
        then show ?thesis using Inr g u res pr unfolding pr_def by simp
      qed
    qed
  qed
qed

lemma cleanup_inv: "event_inv s \<Longrightarrow> event_inv (cleanup_lost_tracks C s)"
  by (auto simp: event_inv_def cleanup_lost_tracks_def Let_def)

lemma start_new_event_inv: "event_inv s \<Longrightarrow> event_inv (start_new_event susp s)"
  by (auto simp: event_inv_def start_new_event_def replay_append Let_def)

lemma end_existing_event_inv: "event_inv s \<Longrightarrow> event_inv (end_existing_event susp s)"
  by (auto simp: event_inv_def end_existing_event_def replay_append)

lemma add_new_participants_event [simp]:
  "event_id (active_event (add_new_participants ps s)) = event_id (active_event s)"
  "event_status (active_event (add_new_participants ps s)) = event_status (active_event s)"
  "last_vlm_trigger_time (active_event (add_new_participants ps s))
     = last_vlm_trigger_time (active_event s)"
  "participants (active_event (add_new_participants ps s))
     = participants (active_event s) \<union> set ps"
  "vlm_task_queue (add_new_participants ps s) = vlm_task_queue s"
  "object_ids (add_new_participants ps s) = object_ids s"
  "uuid_calls (add_new_participants ps s) = uuid_calls s"
  by (induction ps arbitrary: s) auto

lemma add_new_participants_queue:
  "db_writer_queue (add_new_participants ps s)
     = db_writer_queue s @ map (add_participant_to_event (event_id (active_event s))) ps"
  by (induction ps arbitrary: s) auto

lemma replay_add_participants:
  "cur \<noteq> None \<Longrightarrow> replay cur (map (add_participant_to_event cur) ps) = Some cur"
  by (induction ps) auto

lemma continuous_vlm_analysis_inv:
  "event_inv s \<Longrightarrow> event_inv (continuous_vlm_analysis ev now img susp s)"
  by (auto simp: event_inv_def continuous_vlm_analysis_def Let_def add_new_participants_queue
      replay_append replay_add_participants)

lemma event_section_inv: "event_inv s \<Longrightarrow> event_inv (event_section ev now img susp s)"
  by (simp add: event_section_def continuous_vlm_analysis_inv end_existing_event_inv
      start_new_event_inv)

lemma process_frame_inv: "event_inv s \<Longrightarrow> event_inv (final_state (process_frame ev r s))"
proof -
  assume inv: "event_inv s"
  show ?thesis
  proof (cases "boxes_id r")
    case None
    then show ?thesis using inv by (simp add: process_frame_def final_state_def)
  next
    case (Some ids)
    show ?thesis
    proof (cases "update_subject_states ev r (enumerate 0 ids) s")
      case (Inl e)
      then show ?thesis
        using update_subject_states_inv [OF inv, of ev r "enumerate 0 ids"] Some
        by (simp add: process_frame_def final_state_def)
    next
      case (Inr s1)
      then have "event_inv s1"
        using update_subject_states_inv [OF inv, of ev r "enumerate 0 ids"]
        by (simp add: final_state_def)
      then show ?thesis using Some Inr
        by (simp add: process_frame_def final_state_def Let_def event_section_inv cleanup_inv)
    qed
  qed
qed

lemma threat_detection_process_inv:
  "event_inv s \<Longrightarrow> event_inv (final_state (threat_detection_process ev frames s))"
proof (induction frames arbitrary: s)
  case Nil
  then show ?case by (simp add: final_state_def)
next
  case (Cons r rs)
  show ?case
  proof (cases "process_frame ev r s")
    case (Inl e)
    then show ?thesis using process_frame_inv [OF Cons.prems, of ev r] by simp
  next
    case (Inr s')
    then have "event_inv s'" using process_frame_inv [OF Cons.prems, of ev r]
      by (simp add: final_state_def)
    from Cons.IH [OF this] show ?thesis using Inr by simp
  qed
qed

lemma initial_inv: "event_inv initial_state"
  by (simp add: event_inv_def initial_state_def)

text \<open>
  Claim C1. For every environment and every sequence of frames, from the initial state,
  the persistence queue of the process (also when it stops on an exception) is accepted by
  the monitor \<open>replay\<close>, and so is each of its prefixes: a \<open>create_event\<close> is only ever
  emitted when no event is open, an \<open>end_event\<close> only for the one event that is open. The
  monitor ends in the event the process holds, and the process holds one exactly when
  the status is active. So at no time is more than one event open.
\<close>

theorem at_most_one_event:
  "replay None (db_writer_queue (final_state (threat_detection_process ev frames initial_state)))
     = Some (event_id (active_event (final_state (threat_detection_process ev frames initial_state))))
   \<and> (event_status (active_event (final_state (threat_detection_process ev frames initial_state)))
        = Active)
     = (event_id (active_event (final_state (threat_detection_process ev frames initial_state)))
        \<noteq> None)
   \<and> (\<forall>n. replay None
             (take n (db_writer_queue
                        (final_state (threat_detection_process ev frames initial_state))))
           \<noteq> None)"
proof -
  let ?s = "final_state (threat_detection_process ev frames initial_state)"
  have inv: "event_inv ?s" by (rule threat_detection_process_inv [OF initial_inv])
  then have "replay None (db_writer_queue ?s) \<noteq> None" by (simp add: event_inv_def)
  from replay_take [OF this] inv show ?thesis by (simp add: event_inv_def)
qed

subsection \<open>Starting an event\<close>

text \<open>
  Claim C5. When an event starts (no event open, at least one suspicious subject), the event
  gets a fresh identifier, becomes active, its participant set holds only the first
  suspicious subject, and exactly one \<open>create_event\<close> command naming that subject is
  queued. The last-escalation time is left at 0, so the escalation block of the same frame
  runs: exactly one analysis task (the new event id, the full suspicious list, the frame)
  is queued, after one \<open>add_participant_to_event\<close> for every other suspicious subject.
  The participant set of a reachable state with no open event is empty
  (\<open>threat_detection_process_inv\<close>), and the clock is \<open>time.time()\<close>, seconds since the
  epoch, hence at least the escalation interval.
\<close>

theorem start_new_event_spec:
  assumes "suspicious_subjects \<noteq> []" and "event_status (active_event s) = Inactive"
    and "participants (active_event s) = {}" and "VLM_INTERVAL_SEC \<le> now"
  shows "event_id (active_event (start_new_event suspicious_subjects s))
           = Some (ObjectId (object_ids s))
     \<and> event_status (active_event (start_new_event suspicious_subjects s)) = Active
     \<and> participants (active_event (start_new_event suspicious_subjects s))
           = {tracking_id (hd suspicious_subjects)}
     \<and> last_vlm_trigger_time (active_event (start_new_event suspicious_subjects s)) = 0
     \<and> db_writer_queue (start_new_event suspicious_subjects s)
           = db_writer_queue s @
             [create_event (Some (ObjectId (object_ids s))) ''cam_01''
                (tracking_id (hd suspicious_subjects))]
     \<and> vlm_task_queue (start_new_event suspicious_subjects s) = vlm_task_queue s
     \<and> vlm_task_queue (event_section ev now img suspicious_subjects s)
           = vlm_task_queue s @
             [\<lparr>task_event_id = Some (ObjectId (object_ids s)),
               subjects = map tracking_id suspicious_subjects,
               base64_frame = jpg_base64 ev img\<rparr>]
     \<and> db_writer_queue (event_section ev now img suspicious_subjects s)
           = db_writer_queue s @
             create_event (Some (ObjectId (object_ids s))) ''cam_01''
                (tracking_id (hd suspicious_subjects)) #
             map (add_participant_to_event (Some (ObjectId (object_ids s))))
               (set_iter ev (set (map tracking_id suspicious_subjects)
                              - {tracking_id (hd suspicious_subjects)}))"
  using assms
  by (simp add: start_new_event_def event_section_def end_existing_event_def
      continuous_vlm_analysis_def Let_def add_new_participants_queue)

theorem start_new_event_spec_witness:
  "[suspicious_at ''person_a1b2c3d4'' 1000, suspicious_at ''person_f6e7d8c9'' 1000] \<noteq> []
   \<and> event_status (active_event initial_state) = Inactive
   \<and> participants (active_event initial_state) = {}
   \<and> VLM_INTERVAL_SEC \<le> 1001
   \<and> participants (active_event (start_new_event
        [suspicious_at ''person_a1b2c3d4'' 1000, suspicious_at ''person_f6e7d8c9'' 1000]
        initial_state)) = {''person_a1b2c3d4''}
   \<and> vlm_task_queue (event_section env0 1001 []
        [suspicious_at ''person_a1b2c3d4'' 1000, suspicious_at ''person_f6e7d8c9'' 1000]
        initial_state)
       = [\<lparr>task_event_id = Some (ObjectId 0),
           subjects = [''person_a1b2c3d4'', ''person_f6e7d8c9''],
           base64_frame = ''/9j/4AAQ''\<rparr>]
   \<and> db_writer_queue (event_section env0 1001 []
        [suspicious_at ''person_a1b2c3d4'' 1000, suspicious_at ''person_f6e7d8c9'' 1000]
        initial_state)
       = [create_event (Some (ObjectId 0)) ''cam_01'' ''person_a1b2c3d4'',
          add_participant_to_event (Some (ObjectId 0)) ''person_f6e7d8c9'']"
  using start_new_event_spec
    [of "[suspicious_at ''person_a1b2c3d4'' 1000, suspicious_at ''person_f6e7d8c9'' 1000]"
        initial_state 1001 env0 "[]"]
  by (simp add: initial_state_def suspicious_at_def VLM_INTERVAL_SEC_def env0_def)

subsection \<open>Escalating an event\<close>

lemma reach_state_event_open:
  "threat_detection_process env0
     [frame_at 1000 (Some [7]) [lying_kps], frame_at 1001 (Some [7]) [lying_kps],
      frame_at 1002 (Some [7, 8]) [lying_kps, lying_kps],
      frame_at 1003 (Some [7, 8]) [lying_kps, lying_kps]] initial_state
   = Inr state_event_open"
  by (simp add: frame_eval state_event_open_def suspicious_at_def)



subsection \<open>Ending an event\<close>

text \<open>
  In \<^verbatim>\<open>security_threat_detection.py\<close> the END block queues one \<open>end_event\<close> with the id
  of the open event and resets status, id and participants; nothing else happens in the
  event section of that frame.
\<close>

lemma end_existing_event_discards:
  assumes "event_status (active_event s) = Active"
  shows "db_writer_queue (end_existing_event [] s) = db_writer_queue s @ [end_event (event_id (active_event s))]
     \<and> event_status (active_event (end_existing_event [] s)) = Inactive
     \<and> event_id (active_event (end_existing_event [] s)) = None
     \<and> participants (active_event (end_existing_event [] s)) = {}
     \<and> event_section ev now img [] s = end_existing_event [] s"
  using assms
  by (simp add: end_existing_event_def event_section_def start_new_event_def
      continuous_vlm_analysis_def)

lemmas ev1_eval = event_run1_def event_run_def event_section1_def event_section_def
  start_new_event_def end_existing_event1_def end_existing_event_def
  continuous_vlm_analysis_def initial_state_def suspicious_at_def VLM_INTERVAL_SEC_def
  env0_def Let_def

text \<open>
  Claim C3. When the suspicious set becomes empty while an event is open, one \<open>end_event\<close>
  with that event's id is queued and the in-memory event is discarded: status inactive, id
  cleared, participant set emptied. The END block of \<^verbatim>\<open>security_threat_detection1.py\<close>
  resets status and id but leaves the participant set as it was. Subject
  \<open>person_a1b2c3d4\<close> is suspicious at 1001 and no longer at 1002: event 0 starts and ends,
  and the participant set still holds \<open>person_a1b2c3d4\<close>. Subject \<open>person_f6e7d8c9\<close> is
  suspicious at 1010 and event 1 starts with it; \<open>person_a1b2c3d4\<close> is suspicious again at
  1016, and no \<open>add_participant_to_event\<close> is queued for it in event 1, whereas the loop of
  \<^verbatim>\<open>security_threat_detection.py\<close> queues one on the same input.
\<close>

theorem end_existing_event1_keeps_participants:
  "participants (active_event (event_run1 env0
      [(1001, [suspicious_at ''person_a1b2c3d4'' 1000]), (1002, [])] initial_state))
     = {''person_a1b2c3d4''}
   \<and> event_status (active_event (event_run1 env0
      [(1001, [suspicious_at ''person_a1b2c3d4'' 1000]), (1002, [])] initial_state)) = Inactive
   \<and> event_id (active_event (event_run1 env0
      [(1001, [suspicious_at ''person_a1b2c3d4'' 1000]), (1002, [])] initial_state)) = None
   \<and> db_writer_queue (event_run1 env0
      [(1001, [suspicious_at ''person_a1b2c3d4'' 1000]), (1002, []),
       (1010, [suspicious_at ''person_f6e7d8c9'' 1009]),
       (1016, [suspicious_at ''person_a1b2c3d4'' 1015, suspicious_at ''person_f6e7d8c9'' 1009])]
      initial_state)
     = [create_event (Some (ObjectId 0)) ''cam_01'' ''person_a1b2c3d4'',
        end_event (Some (ObjectId 0)),
        create_event (Some (ObjectId 1)) ''cam_01'' ''person_f6e7d8c9'']
   \<and> db_writer_queue (event_run env0
      [(1001, [suspicious_at ''person_a1b2c3d4'' 1000]), (1002, []),
       (1010, [suspicious_at ''person_f6e7d8c9'' 1009]),
       (1016, [suspicious_at ''person_a1b2c3d4'' 1015, suspicious_at ''person_f6e7d8c9'' 1009])]
      initial_state)
     = [create_event (Some (ObjectId 0)) ''cam_01'' ''person_a1b2c3d4'',
        end_event (Some (ObjectId 0)),
        create_event (Some (ObjectId 1)) ''cam_01'' ''person_f6e7d8c9'',
        add_participant_to_event (Some (ObjectId 1)) ''person_a1b2c3d4'']"
  by (simp add: ev1_eval)

section \<open>Properties of the persistence consumer\<close>

lemma db_writer_loop_no_shutdown:
  "\<forall>t\<in>set pre. \<not> is_shutdown t \<Longrightarrow>
   db_writer_loop dm (pre @ rest) st = db_writer_loop dm rest (fold (process_task dm) pre st)"
  by (induction pre arbitrary: st) auto

text \<open>
  Claim C8. The persistence consumer processes the commands one at a time in arrival order:
  up to the first shutdown signal the store and the messages are those of handling each
  item in turn, whatever failed on the way. A command whose action is not recognised is
  reported as a warning and dropped (the store is untouched); a failure applying a command
  is caught and reported, and the consumer goes on with the next command. The shutdown
  signal (\<^verbatim>\<open>None\<close>, or a dict whose action is \<^verbatim>\<open>'shutdown'\<close>) ends the loop, the
  connection is closed, and what arrived after the signal is never read. Without a signal
  the consumer keeps waiting.
\<close>

theorem db_writer_process_spec:
  assumes "\<forall>t\<in>set pre. \<not> is_shutdown t" and "is_shutdown sentinel"
  shows "db_writer_process (Some (dm, db)) (pre @ sentinel # post)
           = Some (Returned
               \<lparr>store = dm_close dm (store (fold (process_task dm) pre \<lparr>store = db, printed = []\<rparr>)),
                printed = printed (fold (process_task dm) pre \<lparr>store = db, printed = []\<rparr>)
                           @ [ShutdownSignalReceived, ShuttingDown]\<rparr> post)
     \<and> db_writer_process (Some (dm, db)) pre
           = Some (Blocked (fold (process_task dm) pre \<lparr>store = db, printed = []\<rparr>))
     \<and> (unknown \<noteq> Some ''shutdown'' \<and> unknown \<notin> Some ` set known_actions \<longrightarrow>
         process_task dm (PyDict unknown pl0) st0
           = st0\<lparr>printed := printed st0 @ [UnknownAction unknown]\<rparr>)
     \<and> (route dm action1 = Some method1 \<and>
         method1 (case pl1 of None \<Rightarrow> [] | Some p \<Rightarrow> p) (store st1) = (db1, Some e) \<longrightarrow>
         process_task dm (PyDict action1 pl1) st1
           = st1\<lparr>store := db1, printed := printed st1 @ [ErrorProcessingTask e]\<rparr>)
     \<and> (route dm action2 = Some method2 \<and>
         method2 (case pl2 of None \<Rightarrow> [] | Some p \<Rightarrow> p) (store st2) = (db2, None) \<longrightarrow>
         process_task dm (PyDict action2 pl2) st2 = st2\<lparr>store := db2\<rparr>)
     \<and> (is_shutdown task \<longleftrightarrow> task = PyNone \<or> (\<exists>pl. task = PyDict (Some ''shutdown'') pl))"
proof -
  have 1: "db_writer_process (Some (dm, db)) (pre @ sentinel # post)
           = Some (Returned
               \<lparr>store = dm_close dm (store (fold (process_task dm) pre \<lparr>store = db, printed = []\<rparr>)),
                printed = printed (fold (process_task dm) pre \<lparr>store = db, printed = []\<rparr>)
                           @ [ShutdownSignalReceived, ShuttingDown]\<rparr> post)"
    using assms by (simp add: db_writer_process_def db_writer_loop_no_shutdown after_loop_def)
  have 2: "db_writer_process (Some (dm, db)) pre
           = Some (Blocked (fold (process_task dm) pre \<lparr>store = db, printed = []\<rparr>))"
    using assms(1) db_writer_loop_no_shutdown [of pre dm "[]"]
    by (simp add: db_writer_process_def)
  have 3: "unknown \<noteq> Some ''shutdown'' \<and> unknown \<notin> Some ` set known_actions \<longrightarrow>
         process_task dm (PyDict unknown pl0) st0
           = st0\<lparr>printed := printed st0 @ [UnknownAction unknown]\<rparr>"
    by (auto simp: process_task_def route_def known_actions_def)
  have 4: "route dm action1 = Some method1 \<and>
         method1 (case pl1 of None \<Rightarrow> [] | Some p \<Rightarrow> p) (store st1) = (db1, Some e) \<longrightarrow>
         process_task dm (PyDict action1 pl1) st1
           = st1\<lparr>store := db1, printed := printed st1 @ [ErrorProcessingTask e]\<rparr>"
    by (simp add: process_task_def)
  have 5: "route dm action2 = Some method2 \<and>
         method2 (case pl2 of None \<Rightarrow> [] | Some p \<Rightarrow> p) (store st2) = (db2, None) \<longrightarrow>
         process_task dm (PyDict action2 pl2) st2 = st2\<lparr>store := db2\<rparr>"
    by (simp add: process_task_def)
  have 6: "is_shutdown task \<longleftrightarrow> task = PyNone \<or> (\<exists>pl. task = PyDict (Some ''shutdown'') pl)"
    by (cases task) (auto simp: is_shutdown_def)
  from 1 2 3 4 5 6 show ?thesis by blast
qed

lemmas writer_eval = db_writer_process_def is_shutdown_def process_task_def route_def
  after_loop_def dm0_def known_actions_def Let_def

theorem db_writer_process_spec_witness:
  "filter is_shutdown
      [PyDict (Some ''create_event'') (Some [(''event_id'', ''e0'')]),
       PyDict (Some ''end_event'') None,
       PyDict (Some ''bogus'') None,
       PyOther,
       PyDict (Some ''end_event'') (Some [(''event_id'', ''e0'')]) :: string db_task] = []
   \<and> is_shutdown (PyDict (Some ''shutdown'') None :: string db_task)
   \<and> db_writer_process (Some (dm0, []))
        ([PyDict (Some ''create_event'') (Some [(''event_id'', ''e0'')]),
          PyDict (Some ''end_event'') None,
          PyDict (Some ''bogus'') None,
          PyOther,
          PyDict (Some ''end_event'') (Some [(''event_id'', ''e0'')])]
         @ PyDict (Some ''shutdown'') None
         # [PyDict (Some ''create_event'') (Some [(''event_id'', ''e1'')])])
       = Some (Returned
           \<lparr>store = [(''Events.insert_one'', [(''event_id'', ''e0'')]),
                     (''Events.update_one'', [(''event_id'', ''e0'')]),
                     (''client.close'', [])],
            printed = [ErrorProcessingTask ''TypeError'', UnknownAction (Some ''bogus''),
                       ErrorProcessingTask ''AttributeError'',
                       ShutdownSignalReceived, ShuttingDown]\<rparr>
           [PyDict (Some ''create_event'') (Some [(''event_id'', ''e1'')])])
   \<and> Some ''bogus'' \<noteq> Some ''shutdown'' \<and> Some ''bogus'' \<notin> Some ` set known_actions
   \<and> process_task dm0 (PyDict (Some ''bogus'') None) \<lparr>store = [], printed = []\<rparr>
       = \<lparr>store = [], printed = [UnknownAction (Some ''bogus'')]\<rparr>
   \<and> route dm0 (Some ''end_event'') = Some (dm_end_event dm0)
   \<and> dm_end_event dm0 [] [] = ([], Some ''TypeError'')
   \<and> process_task dm0 (PyDict (Some ''end_event'') None) \<lparr>store = [], printed = []\<rparr>
       = \<lparr>store = [], printed = [ErrorProcessingTask ''TypeError'']\<rparr>
   \<and> dm_end_event dm0 [(''event_id'', ''e0'')] [] = ([(''Events.update_one'', [(''event_id'', ''e0'')])], None)
   \<and> process_task dm0 (PyDict (Some ''end_event'') (Some [(''event_id'', ''e0'')])) \<lparr>store = [], printed = []\<rparr>
       = \<lparr>store = [(''Events.update_one'', [(''event_id'', ''e0'')])], printed = []\<rparr>"
  using db_writer_process_spec
    [where pre = "[PyDict (Some ''create_event'') (Some [(''event_id'', ''e0'')]),
               PyDict (Some ''end_event'') None,
               PyDict (Some ''bogus'') None,
               PyOther,
               PyDict (Some ''end_event'') (Some [(''event_id'', ''e0'')])]"
       and sentinel = "PyDict (Some ''shutdown'') None"
       and post = "[PyDict (Some ''create_event'') (Some [(''event_id'', ''e1'')])]"
       and dm = dm0 and db = "[]"
       and unknown = "Some ''bogus''" and ?pl0.0 = None and ?st0.0 = "\<lparr>store = [], printed = []\<rparr>"
       and ?action1.0 = "Some ''end_event''" and ?method1.0 = "dm_end_event dm0" and ?pl1.0 = None
       and ?st1.0 = "\<lparr>store = [], printed = []\<rparr>" and ?db1.0 = "[]" and e = "''TypeError''"
       and ?action2.0 = "Some ''end_event''" and ?method2.0 = "dm_end_event dm0"
       and ?pl2.0 = "Some [(''event_id'', ''e0'')]"
       and ?st2.0 = "\<lparr>store = [], printed = []\<rparr>"
       and ?db2.0 = "[(''Events.update_one'', [(''event_id'', ''e0'')])]"]
  by (simp add: writer_eval)

section \<open>Properties of the analysis worker\<close>

lemma say_simps [simp]:
  "worker_db_queue (say m st) = worker_db_queue st"
  "worker_printed (say m st) = worker_printed st @ [m]"
  by (simp_all add: say_def)






end
